theory Spec2Isabelle
  imports Main
begin

section \<open>Heartbeat monitor: data model\<close>

text \<open>
  The monitor of \<^verbatim>\<open>main.py\<close> works on decoded JSON documents. A raw event can have any
  shape, so an event is a value of \<open>json\<close>; a dictionary keeps its entries as an
  association list, read by its first entry for a key (a Python dictionary has one entry
  for each key). JSON numbers are modelled by integers.
\<close>

datatype json =
    JNull
  | JBool bool
  | JInt int
  | JStr string
  | JList "json list"
  | JDict "(string \<times> json) list"

text \<open>The exceptions that the code raises or lets escape.\<close>

datatype error = ValueError | KeyError | TypeError | OverflowError | ZeroDivisionError

text \<open>
  A \<^verbatim>\<open>datetime\<close> of the Python library, at whole-second resolution: \<open>wall\<close> is the
  wall-clock reading in seconds since 0001-01-01T00:00:00 of the proleptic Gregorian
  calendar, \<open>utcoffset\<close> is \<open>None\<close> for a naive value and the offset from UTC in
  seconds for an aware one. All timestamps of the repository's fixtures carry whole
  seconds; on these the floating-point values the code computes (\<^verbatim>\<open>total_seconds()\<close>, the
  product with \<^verbatim>\<open>0.9\<close>, the quotient) are exact or round to the same side as the exact
  ones, so integer arithmetic models them. Fractional seconds are outside the model.
\<close>

record datetime =
  wall :: int
  utcoffset :: "int option"

text \<open>The two attributes of a \<^verbatim>\<open>HeartbeatMonitor\<close> object.\<close>

record HeartbeatMonitor =
  expected_interval_seconds :: int
  allowed_misses :: int

text \<open>The alert dictionary \<^verbatim>\<open>{'service': ..., 'alert_at': ...}\<close>.\<close>

record alert =
  service :: json
  alert_at :: string

text \<open>
  What the scanning loop of \<^verbatim>\<open>detect_missed_heartbeats\<close> ends with: the alert it returned
  from inside the loop, or the value of \<^verbatim>\<open>consecutive_misses\<close> when the loop ran out.
\<close>

datatype scan_result = Fired alert | Quiet int

section \<open>The parts of the Python library that the code calls\<close>

subsection \<open>Calendar arithmetic of \<^verbatim>\<open>datetime\<close>\<close>

definition is_leap :: "int \<Rightarrow> bool" where
  "is_leap y = (y mod 4 = 0 \<and> (y mod 100 \<noteq> 0 \<or> y mod 400 = 0))"

definition days_before_year :: "int \<Rightarrow> int" where
  "days_before_year y = (y - 1) * 365 + (y - 1) div 4 - (y - 1) div 100 + (y - 1) div 400"

definition days_in_month :: "int \<Rightarrow> int \<Rightarrow> int" where
  "days_in_month y m =
     (if m = 2 then (if is_leap y then 29 else 28)
      else if m = 4 \<or> m = 6 \<or> m = 9 \<or> m = 11 then 30 else 31)"

definition days_before_month :: "int \<Rightarrow> int \<Rightarrow> int" where
  "days_before_month y m = (\<Sum>k \<leftarrow> [1..<nat m]. days_in_month y (int k))"

text \<open>The ordinal of a date: 0001-01-01 is day 1.\<close>

definition ymd2ord :: "int \<Rightarrow> int \<Rightarrow> int \<Rightarrow> int" where
  "ymd2ord y m d = days_before_year y + days_before_month y m + d"

text \<open>The inverse, as the library computes it from the cycles of 400, 100, 4 and 1 years.\<close>

definition ord2ymd :: "int \<Rightarrow> int \<times> int \<times> int" where
  "ord2ymd ordinal =
     (let n0 = ordinal - 1;
          n400 = n0 div 146097; n1 = n0 mod 146097;
          n100 = n1 div 36524; n2 = n1 mod 36524;
          n4 = n2 div 1461; n3 = n2 mod 1461;
          n1y = n3 div 365; n = n3 mod 365;
          year = n400 * 400 + 1 + n100 * 100 + n4 * 4 + n1y
      in if n1y = 4 \<or> n100 = 4 then (year - 1, 12, 31)
         else
           let leapyear = (n1y = 3 \<and> (n4 \<noteq> 24 \<or> n100 = 3));
               month = (n + 50) div 32;
               preceding = days_before_month (if leapyear then 4 else 1) month;
               month' = (if preceding > n then month - 1 else month);
               preceding' = (if preceding > n
                             then preceding - days_in_month (if leapyear then 4 else 1) month'
                             else preceding)
           in (year, month', n - preceding' + 1))"

text \<open>The last representable second is 9999-12-31T23:59:59, on day 3652059.\<close>

definition in_range :: "int \<Rightarrow> bool" where
  "in_range w = (0 \<le> w \<and> w < 3652059 * 86400)"

text \<open>
  \<^verbatim>\<open>x + timedelta(seconds=n)\<close>, where \<open>x\<close> is what \<^verbatim>\<open>parse_timestamp\<close> returned. The
  \<^verbatim>\<open>timedelta\<close> is built first and raises when it has more than 999999999 days; adding
  to \<^verbatim>\<open>None\<close> raises \<^verbatim>\<open>TypeError\<close>; a sum outside years 1 to 9999 raises
  \<^verbatim>\<open>OverflowError\<close>. The offset of the value is kept.
\<close>

definition dt_add :: "datetime option \<Rightarrow> int \<Rightarrow> error + datetime" where
  "dt_add x n =
     (if \<bar>n div 86400\<bar> > 999999999 then Inl OverflowError
      else case x of
          None \<Rightarrow> Inl TypeError
        | Some d \<Rightarrow>
            if in_range (wall d + n) then Inr (d\<lparr>wall := wall d + n\<rparr>)
            else Inl OverflowError)"

text \<open>
  The value that orders two datetimes of the same kind: the wall clock of a naive one, the
  UTC instant of an aware one.
\<close>

definition instant :: "datetime \<Rightarrow> int" where
  "instant d = (case utcoffset d of None \<Rightarrow> wall d | Some off \<Rightarrow> wall d - off)"

definition same_kind :: "datetime \<Rightarrow> datetime \<Rightarrow> bool" where
  "same_kind a b = ((utcoffset a = None) = (utcoffset b = None))"

text \<open>
  \<^verbatim>\<open>(x - b).total_seconds()\<close>: \<^verbatim>\<open>TypeError\<close> when \<open>x\<close> is \<^verbatim>\<open>None\<close> or when one
  value is naive and the other aware.
\<close>

definition dt_sub :: "datetime option \<Rightarrow> datetime \<Rightarrow> error + int" where
  "dt_sub x b =
     (case x of
        None \<Rightarrow> Inl TypeError
      | Some a \<Rightarrow> if same_kind a b then Inr (instant a - instant b) else Inl TypeError)"

text \<open>
  \<^verbatim>\<open>round(a / b)\<close> for a non-zero \<open>b\<close>: the nearest integer, a tie going to the even
  neighbour.
\<close>

definition py_round :: "int \<Rightarrow> int \<Rightarrow> int" where
  "py_round a b =
     (let q = a div b; r = \<bar>a mod b\<bar>
      in if 2 * r < \<bar>b\<bar> then q
         else if 2 * r > \<bar>b\<bar> then q + 1
         else if even q then q else q + 1)"

subsection \<open>\<^verbatim>\<open>strftime('%Y-%m-%dT%H:%M:%SZ')\<close>\<close>

definition digit_char :: "int \<Rightarrow> char" where
  "digit_char n = ''0123456789'' ! nat (n mod 10)"

definition pad2 :: "int \<Rightarrow> string" where
  "pad2 n = [digit_char (n div 10), digit_char n]"

text \<open>
  The year is written with four digits (below year 1000 the C library decides whether
  \<^verbatim>\<open>%Y\<close> pads). The fields are those of the wall clock of the value: \<^verbatim>\<open>strftime\<close> does
  not convert to UTC, and the \<^verbatim>\<open>Z\<close> is a literal character of the format.
\<close>

definition strftime :: "datetime \<Rightarrow> string" where
  "strftime d =
     (let days = wall d div 86400; secs = wall d mod 86400;
          (y, m, dd) = ord2ymd (days + 1)
      in pad2 (y div 100) @ pad2 y @ ''-'' @ pad2 m @ ''-'' @ pad2 dd @ ''T''
         @ pad2 (secs div 3600) @ '':'' @ pad2 (secs mod 3600 div 60) @ '':''
         @ pad2 (secs mod 60) @ ''Z'')"

subsection \<open>A fragment of \<^verbatim>\<open>datetime.fromisoformat\<close>\<close>

text \<open>
  The code delegates parsing to \<^verbatim>\<open>datetime.fromisoformat\<close>. The functions below take the
  parser as a parameter \<open>fromiso\<close> (\<open>None\<close> standing for its \<^verbatim>\<open>ValueError\<close>), so that the
  general theorems hold for whatever the library accepts. For the concrete runs,
  \<open>fromisoformat\<close> is the library's parser on the notation of the fixtures,
  \<^verbatim>\<open>YYYY-MM-DDTHH:MM:SS\<close> followed by nothing or by \<^verbatim>\<open>+HH:MM\<close> or \<^verbatim>\<open>-HH:MM\<close>; the other
  notations of the library are not covered and give \<open>None\<close> here.
\<close>

definition is_digit :: "char \<Rightarrow> bool" where
  "is_digit c = (48 \<le> (of_char c :: nat) \<and> (of_char c :: nat) \<le> 57)"

definition num :: "string \<Rightarrow> int option" where
  "num s =
     (if s \<noteq> [] \<and> list_all is_digit s
      then Some (foldl (\<lambda>a c. 10 * a + (int (of_char c) - 48)) 0 s)
      else None)"

definition field :: "string \<Rightarrow> nat \<Rightarrow> nat \<Rightarrow> int option" where
  "field s i n = num (take n (drop i s))"

definition parse_offset :: "string \<Rightarrow> int option option" where
  "parse_offset t =
     (if t = [] then Some None
      else if length t = 6 \<and> (t ! 0 = CHR ''+'' \<or> t ! 0 = CHR ''-'') \<and> t ! 3 = CHR '':''
      then (case (field t 1 2, field t 4 2) of
              (Some oh, Some om) \<Rightarrow>
                if oh \<le> 23 \<and> om \<le> 59
                then Some (Some ((if t ! 0 = CHR ''-'' then - 1 else 1) * (oh * 3600 + om * 60)))
                else None
            | _ \<Rightarrow> None)
      else None)"

definition fromisoformat :: "string \<Rightarrow> datetime option" where
  "fromisoformat s =
     (if length s < 19 then None
      else if s ! 4 \<noteq> CHR ''-'' \<or> s ! 7 \<noteq> CHR ''-'' \<or> s ! 10 \<noteq> CHR ''T''
              \<or> s ! 13 \<noteq> CHR '':'' \<or> s ! 16 \<noteq> CHR '':'' then None
      else
        (case (field s 0 4, field s 5 2, field s 8 2, field s 11 2, field s 14 2, field s 17 2) of
           (Some y, Some mo, Some d, Some h, Some mi, Some se) \<Rightarrow>
             if 1 \<le> y \<and> 1 \<le> mo \<and> mo \<le> 12 \<and> 1 \<le> d \<and> d \<le> days_in_month y mo
                \<and> h \<le> 23 \<and> mi \<le> 59 \<and> se \<le> 59
             then (case parse_offset (drop 19 s) of
                     None \<Rightarrow> None
                   | Some off \<Rightarrow>
                       Some \<lparr>wall = (ymd2ord y mo d - 1) * 86400 + h * 3600 + mi * 60 + se,
                             utcoffset = off\<rparr>)
             else None
         | _ \<Rightarrow> None))"

section \<open>The class \<^verbatim>\<open>HeartbeatMonitor\<close>\<close>

subsection \<open>Construction\<close>

definition init :: "int \<Rightarrow> int \<Rightarrow> error + HeartbeatMonitor" where
  "init expected_interval allowed =
     (if expected_interval \<le> 0 then Inl ValueError
      else if allowed \<le> 0 then Inl ValueError
      else Inr \<lparr>expected_interval_seconds = expected_interval, allowed_misses = allowed\<rparr>)"

subsection \<open>\<^verbatim>\<open>parse_timestamp\<close> and \<^verbatim>\<open>validate_event\<close>\<close>

definition endswith_Z :: "string \<Rightarrow> bool" where
  "endswith_Z s = (s \<noteq> [] \<and> last s = CHR ''Z'')"

text \<open>
  A value that is not a string has no \<^verbatim>\<open>endswith\<close>: the \<^verbatim>\<open>AttributeError\<close> is caught
  and the result is \<^verbatim>\<open>None\<close>, as it is for the parser's \<^verbatim>\<open>ValueError\<close>.
\<close>

definition parse_timestamp :: "(string \<Rightarrow> datetime option) \<Rightarrow> json \<Rightarrow> datetime option" where
  "parse_timestamp fromiso v =
     (case v of
        JStr s \<Rightarrow> fromiso (if endswith_Z s then butlast s @ ''+00:00'' else s)
      | _ \<Rightarrow> None)"

text \<open>\<^verbatim>\<open>event[key]\<close>: only a dictionary that has the key yields a value.\<close>

definition getitem :: "json \<Rightarrow> string \<Rightarrow> error + json" where
  "getitem ev k =
     (case ev of
        JDict kvs \<Rightarrow> (case map_of kvs k of None \<Rightarrow> Inl KeyError | Some v \<Rightarrow> Inr v)
      | _ \<Rightarrow> Inl TypeError)"

text \<open>The whitespace of ASCII that \<^verbatim>\<open>str.strip()\<close> removes.\<close>

definition isspace :: "char \<Rightarrow> bool" where
  "isspace c = (let n = (of_char c :: nat) in (9 \<le> n \<and> n \<le> 13) \<or> (28 \<le> n \<and> n \<le> 32))"

definition strip :: "string \<Rightarrow> string" where
  "strip s = rev (dropWhile isspace (rev (dropWhile isspace s)))"

definition validate_event :: "(string \<Rightarrow> datetime option) \<Rightarrow> json \<Rightarrow> bool" where
  "validate_event fromiso ev =
     (case ev of
        JDict kvs \<Rightarrow>
          (case (map_of kvs ''service'', map_of kvs ''timestamp'') of
             (Some sv, Some tv) \<Rightarrow>
               (case sv of
                  JStr s \<Rightarrow>
                    if strip s = [] then False
                    else if parse_timestamp fromiso tv = None then False
                    else True
                | _ \<Rightarrow> False)
           | _ \<Rightarrow> False)
      | _ \<Rightarrow> False)"

text \<open>The filter of \<^verbatim>\<open>load_events\<close>, which \<^verbatim>\<open>main\<close> runs before \<^verbatim>\<open>monitor\<close>.\<close>

definition valid_events :: "(string \<Rightarrow> datetime option) \<Rightarrow> json list \<Rightarrow> json list" where
  "valid_events fromiso events = filter (validate_event fromiso) events"

subsection \<open>\<^verbatim>\<open>group_and_sort_events\<close>\<close>

text \<open>
  The dictionary \<^verbatim>\<open>service_events\<close> is keyed by the value of the \<^verbatim>\<open>service\<close> field, which
  must be hashable; \<^verbatim>\<open>True\<close> and \<^verbatim>\<open>1\<close> are the same key. It keeps its keys in the order of
  their first insertion, so it is an association list.
\<close>

datatype key = KNone | KInt int | KStr string

fun hash_key :: "json \<Rightarrow> error + key" where
  "hash_key JNull = Inr KNone"
| "hash_key (JBool b) = Inr (KInt (if b then 1 else 0))"
| "hash_key (JInt n) = Inr (KInt n)"
| "hash_key (JStr s) = Inr (KStr s)"
| "hash_key (JList _) = Inl TypeError"
| "hash_key (JDict _) = Inl TypeError"

fun dict_append :: "(key \<times> json list) list \<Rightarrow> key \<Rightarrow> json \<Rightarrow> (key \<times> json list) list" where
  "dict_append [] k e = [(k, [e])]"
| "dict_append ((k', es) # g) k e =
     (if k' = k then (k', es @ [e]) # g else (k', es) # dict_append g k e)"

fun group_events :: "json list \<Rightarrow> (key \<times> json list) list \<Rightarrow> error + (key \<times> json list) list" where
  "group_events [] g = Inr g"
| "group_events (event # events) g =
     (case getitem event ''service'' of
        Inl x \<Rightarrow> Inl x
      | Inr sv \<Rightarrow>
          (case hash_key sv of
             Inl x \<Rightarrow> Inl x
           | Inr k \<Rightarrow> group_events events (dict_append g k event)))"

text \<open>The sort key of one event: \<^verbatim>\<open>self.parse_timestamp(e['timestamp'])\<close>.\<close>

definition timestamp_of :: "(string \<Rightarrow> datetime option) \<Rightarrow> json \<Rightarrow> error + datetime option" where
  "timestamp_of fromiso e =
     (case getitem e ''timestamp'' of Inl x \<Rightarrow> Inl x | Inr tv \<Rightarrow> Inr (parse_timestamp fromiso tv))"

fun sort_keys :: "(string \<Rightarrow> datetime option) \<Rightarrow> json list \<Rightarrow> error + datetime option list" where
  "sort_keys fromiso [] = Inr []"
| "sort_keys fromiso (e # es) =
     (case timestamp_of fromiso e of
        Inl x \<Rightarrow> Inl x
      | Inr k \<Rightarrow> (case sort_keys fromiso es of Inl x \<Rightarrow> Inl x | Inr ks \<Rightarrow> Inr (k # ks)))"

text \<open>
  Keys can be ordered when none is \<^verbatim>\<open>None\<close> and all are naive or all are aware; otherwise
  some comparison of the sort raises \<^verbatim>\<open>TypeError\<close>.
\<close>

fun comparable :: "datetime option list \<Rightarrow> bool" where
  "comparable [] = True"
| "comparable (None # ks) = False"
| "comparable (Some d # ks) =
     (list_all (\<lambda>k. case k of None \<Rightarrow> False | Some d' \<Rightarrow> same_kind d d') ks \<and> comparable ks)"

definition instant_key :: "datetime option \<Rightarrow> int" where
  "instant_key k = (case k of None \<Rightarrow> 0 | Some d \<Rightarrow> instant d)"

text \<open>
  \<^verbatim>\<open>list.sort(key=...)\<close>: the keys of all elements are computed first; a list of fewer than
  two elements is never compared; the sort is stable, as \<open>sort_key\<close> is.
\<close>

definition sort_events :: "(string \<Rightarrow> datetime option) \<Rightarrow> json list \<Rightarrow> error + json list" where
  "sort_events fromiso es =
     (case sort_keys fromiso es of
        Inl x \<Rightarrow> Inl x
      | Inr ks \<Rightarrow>
          if length es < 2 then Inr es
          else if comparable ks then Inr (map snd (sort_key (instant_key \<circ> fst) (zip ks es)))
          else Inl TypeError)"

fun sort_groups ::
  "(string \<Rightarrow> datetime option) \<Rightarrow> (key \<times> json list) list \<Rightarrow> error + (key \<times> json list) list" where
  "sort_groups fromiso [] = Inr []"
| "sort_groups fromiso ((k, es) # g) =
     (case sort_events fromiso es of
        Inl x \<Rightarrow> Inl x
      | Inr es' \<Rightarrow> (case sort_groups fromiso g of Inl x \<Rightarrow> Inl x | Inr g' \<Rightarrow> Inr ((k, es') # g')))"

definition group_and_sort_events ::
  "(string \<Rightarrow> datetime option) \<Rightarrow> json list \<Rightarrow> error + (key \<times> json list) list" where
  "group_and_sort_events fromiso events =
     (case group_events events [] of Inl x \<Rightarrow> Inl x | Inr g \<Rightarrow> sort_groups fromiso g)"

subsection \<open>\<^verbatim>\<open>detect_missed_heartbeats\<close>\<close>

text \<open>
  The test \<^verbatim>\<open>time_diff >= self.expected_interval_seconds * 0.9\<close>, on whole seconds.
\<close>

definition is_late :: "HeartbeatMonitor \<Rightarrow> int \<Rightarrow> bool" where
  "is_late self time_diff = (10 * time_diff \<ge> 9 * expected_interval_seconds self)"

text \<open>The body of the loop for the pair \<open>(current, next)\<close>, entered with the counter \<open>cm\<close>.\<close>

definition pair_step ::
  "(string \<Rightarrow> datetime option) \<Rightarrow> HeartbeatMonitor \<Rightarrow> json \<Rightarrow> int \<Rightarrow> json \<Rightarrow> json
     \<Rightarrow> error + scan_result" where
  "pair_step fromiso self service_name cm current next =
     (case timestamp_of fromiso current of
        Inl x \<Rightarrow> Inl x
      | Inr current_time \<Rightarrow>
     (case timestamp_of fromiso next of
        Inl x \<Rightarrow> Inl x
      | Inr next_time \<Rightarrow>
     (case dt_add current_time (expected_interval_seconds self) of
        Inl x \<Rightarrow> Inl x
      | Inr expected_next \<Rightarrow>
     (case dt_sub next_time expected_next of
        Inl x \<Rightarrow> Inl x
      | Inr time_diff \<Rightarrow>
          if is_late self time_diff then
            if expected_interval_seconds self = 0 then Inl ZeroDivisionError
            else
              let intervals_missed = py_round time_diff (expected_interval_seconds self);
                  consecutive_misses = cm + intervals_missed
              in if consecutive_misses \<ge> allowed_misses self then
                   (case dt_add (Some expected_next)
                           (expected_interval_seconds self * (allowed_misses self - 1)) of
                      Inl x \<Rightarrow> Inl x
                    | Inr alert_time \<Rightarrow>
                        Inr (Fired \<lparr>service = service_name, alert_at = strftime alert_time\<rparr>))
                 else Inr (Quiet consecutive_misses)
          else Inr (Quiet 0)))))"

fun scan ::
  "(string \<Rightarrow> datetime option) \<Rightarrow> HeartbeatMonitor \<Rightarrow> json \<Rightarrow> int \<Rightarrow> json list
     \<Rightarrow> error + scan_result" where
  "scan fromiso self service_name cm (current # next # rest) =
     (case pair_step fromiso self service_name cm current next of
        Inl x \<Rightarrow> Inl x
      | Inr (Fired a) \<Rightarrow> Inr (Fired a)
      | Inr (Quiet cm') \<Rightarrow> scan fromiso self service_name cm' (next # rest))"
| "scan fromiso self service_name cm _ = Inr (Quiet cm)"

definition detect_missed_heartbeats ::
  "(string \<Rightarrow> datetime option) \<Rightarrow> HeartbeatMonitor \<Rightarrow> json list \<Rightarrow> error + alert option" where
  "detect_missed_heartbeats fromiso self events =
     (case events of
        [] \<Rightarrow> Inr None
      | first # _ \<Rightarrow>
          (case getitem first ''service'' of
             Inl x \<Rightarrow> Inl x
           | Inr service_name \<Rightarrow>
               (case scan fromiso self service_name 0 events of
                  Inl x \<Rightarrow> Inl x
                | Inr (Fired a) \<Rightarrow> Inr (Some a)
                | Inr (Quiet _) \<Rightarrow> Inr None)))"

subsection \<open>\<^verbatim>\<open>monitor\<close>\<close>

fun collect_alerts ::
  "(string \<Rightarrow> datetime option) \<Rightarrow> HeartbeatMonitor \<Rightarrow> (key \<times> json list) list
     \<Rightarrow> error + alert list" where
  "collect_alerts fromiso self [] = Inr []"
| "collect_alerts fromiso self ((k, service_event_list) # g) =
     (case detect_missed_heartbeats fromiso self service_event_list of
        Inl x \<Rightarrow> Inl x
      | Inr r \<Rightarrow>
          (case collect_alerts fromiso self g of
             Inl x \<Rightarrow> Inl x
           | Inr alerts \<Rightarrow> Inr (case r of None \<Rightarrow> alerts | Some a \<Rightarrow> a # alerts)))"

definition monitor ::
  "(string \<Rightarrow> datetime option) \<Rightarrow> HeartbeatMonitor \<Rightarrow> json list \<Rightarrow> error + alert list" where
  "monitor fromiso self events =
     (case group_and_sort_events fromiso events of
        Inl x \<Rightarrow> Inl x
      | Inr service_events \<Rightarrow> collect_alerts fromiso self service_events)"

section \<open>Notions used in the statements\<close>



text \<open>The events of the test suite: a dictionary with the two fields.\<close>

definition event :: "string \<Rightarrow> string \<Rightarrow> json" where
  "event s t = JDict [(''service'', JStr s), (''timestamp'', JStr t)]"

text \<open>The monitor that \<^verbatim>\<open>setUp\<close> of the test suite and \<^verbatim>\<open>main\<close> build.\<close>

definition setUp :: HeartbeatMonitor where
  "setUp = \<lparr>expected_interval_seconds = 60, allowed_misses = 3\<rparr>"


definition test_malformed_events :: "json list" where
  "test_malformed_events =
     [event ''cache'' ''2025-08-04T10:00:00Z'',
      JDict [(''service'', JStr ''cache'')],
      JDict [(''timestamp'', JStr ''2025-08-04T10:01:00Z'')],
      event ''cache'' ''invalid-timestamp'',
      event [] ''2025-08-04T10:02:00Z'',
      JNull,
      JStr ''not a dict'',
      event ''cache'' ''2025-08-04T10:03:00Z'']"



text \<open>The UTC reading of a datetime, as \<^verbatim>\<open>astimezone(timezone.utc)\<close> gives it.\<close>

definition utc_reading :: "datetime \<Rightarrow> datetime" where
  "utc_reading d = \<lparr>wall = instant d, utcoffset = Some 0\<rparr>"

section \<open>Auxiliary facts\<close>

subsection \<open>Arithmetic on datetimes and rounding\<close>




subsection \<open>The scanning loop\<close>










subsection \<open>Grouping, sorting and collecting\<close>















section \<open>The claims\<close>

subsection \<open>C1: the alert of the first qualifying gap\<close>




subsection \<open>C2: malformed input\<close>

text \<open>
  Claim C2 says that \<open>monitor\<close> returns normally on every input list. The code groups the
  events without validating them: on the list of \<^verbatim>\<open>test_malformed_events\<close>, which the
  test passes to \<open>monitor\<close> expecting no alert, the third entry has no \<^verbatim>\<open>service\<close> field
  and the call raises \<^verbatim>\<open>KeyError\<close>; on a list holding a null entry it raises
  \<^verbatim>\<open>TypeError\<close>.
\<close>

theorem monitor_malformed_raises:
  "monitor fromisoformat setUp test_malformed_events = Inl KeyError
   \<and> monitor fromisoformat setUp [JNull] = Inl TypeError
   \<and> length (valid_events fromisoformat test_malformed_events) = 2
   \<and> monitor fromisoformat setUp (valid_events fromisoformat test_malformed_events) = Inr []"
  by code_simp

subsection \<open>C3: the late-arrival policy\<close>



subsection \<open>C4: an on-time heartbeat resets the counter\<close>



subsection \<open>C5: fewer than two events\<close>



subsection \<open>C6: permuting the input\<close>

text \<open>
  Claim C6 says that permuting the input list leaves the alerts unchanged. Two events of
  one service at the same instant but written with different UTC offsets tie in the sort,
  so their input order decides which of them precedes the gap; the alert is rendered in the
  wall clock of that event, and the two orders give different \<^verbatim>\<open>alert_at\<close> strings.
\<close>

theorem monitor_permutation_differs:
  "monitor fromisoformat setUp
     [event ''s'' ''2025-08-04T10:00:00+00:00'', event ''s'' ''2025-08-04T11:00:00+01:00'',
      event ''s'' ''2025-08-04T10:04:00+00:00'']
   = Inr [\<lparr>service = JStr ''s'', alert_at = ''2025-08-04T11:03:00Z''\<rparr>]
   \<and> monitor fromisoformat setUp
     [event ''s'' ''2025-08-04T11:00:00+01:00'', event ''s'' ''2025-08-04T10:00:00+00:00'',
      event ''s'' ''2025-08-04T10:04:00+00:00'']
   = Inr [\<lparr>service = JStr ''s'', alert_at = ''2025-08-04T10:03:00Z''\<rparr>]"
  by code_simp

subsection \<open>C7: timestamp parsing\<close>

text \<open>
  Claim C7, as amended. \<open>parse_timestamp\<close> never raises: a value that is not a string
  gives \<open>None\<close>, a string gives what the library's parser gives once a trailing \<^verbatim>\<open>Z\<close> is
  replaced by \<^verbatim>\<open>+00:00\<close>, so the \<^verbatim>\<open>Z\<close> notation and the \<^verbatim>\<open>+00:00\<close> notation of one
  timestamp yield the same result, and a string the parser rejects gives \<open>None\<close>. (Which
  other notations succeed is left to the parser.)
\<close>

theorem parse_timestamp_normalises:
  "parse_timestamp fromiso (JStr (s @ ''Z'')) = fromiso (s @ ''+00:00'')
   \<and> parse_timestamp fromiso (JStr (s @ ''+00:00'')) = fromiso (s @ ''+00:00'')
   \<and> (\<not> endswith_Z t \<longrightarrow> parse_timestamp fromiso (JStr t) = fromiso t)
   \<and> ((\<forall>u. v \<noteq> JStr u) \<longrightarrow> parse_timestamp fromiso v = None)
   \<and> parse_timestamp fromisoformat (JStr ''2025-08-04T10:01:00Z'')
       = Some \<lparr>wall = 63889898460, utcoffset = Some 0\<rparr>
   \<and> parse_timestamp fromisoformat (JStr ''2025-08-04T10:01:00+00:00'')
       = Some \<lparr>wall = 63889898460, utcoffset = Some 0\<rparr>
   \<and> parse_timestamp fromisoformat (JStr ''invalid-timestamp'') = None"
proof -
  have z: "parse_timestamp fromiso (JStr (s @ ''Z'')) = fromiso (s @ ''+00:00'')"
    by (simp add: parse_timestamp_def endswith_Z_def butlast_append)
  have o: "parse_timestamp fromiso (JStr (s @ ''+00:00'')) = fromiso (s @ ''+00:00'')"
    by (simp add: parse_timestamp_def endswith_Z_def)
  have t: "\<not> endswith_Z t \<longrightarrow> parse_timestamp fromiso (JStr t) = fromiso t"
    by (simp add: parse_timestamp_def)
  have v: "(\<forall>u. v \<noteq> JStr u) \<longrightarrow> parse_timestamp fromiso v = None"
    by (cases v) (simp_all add: parse_timestamp_def)
  have c1: "parse_timestamp fromisoformat (JStr ''2025-08-04T10:01:00Z'')
       = Some \<lparr>wall = 63889898460, utcoffset = Some 0\<rparr>" by code_simp
  have c2: "parse_timestamp fromisoformat (JStr ''2025-08-04T10:01:00+00:00'')
       = Some \<lparr>wall = 63889898460, utcoffset = Some 0\<rparr>" by code_simp
  have c3: "parse_timestamp fromisoformat (JStr ''invalid-timestamp'') = None" by code_simp
  from z o t v c1 c2 c3 show ?thesis by blast
qed

text \<open>The theorem at a timestamp of \<^verbatim>\<open>test_timestamp_formats\<close> and at a number.\<close>

theorem parse_timestamp_normalises_witness:
  "\<not> endswith_Z ''2025-08-04T10:01:00+00:00''
   \<and> parse_timestamp fromisoformat (JStr (''2025-08-04T10:01:00'' @ ''Z''))
       = parse_timestamp fromisoformat (JStr ''2025-08-04T10:01:00+00:00'')
   \<and> (\<forall>u. JInt 5 \<noteq> JStr u) \<and> parse_timestamp fromisoformat (JInt 5) = None"
proof -
  have a: "\<not> endswith_Z ''2025-08-04T10:01:00+00:00''" by code_simp
  have b: "\<forall>u. JInt 5 \<noteq> JStr u" by simp
  from parse_timestamp_normalises
         [of fromisoformat "''2025-08-04T10:01:00''" "''2025-08-04T10:01:00+00:00''" "JInt 5"]
       a b
  show ?thesis by simp
qed

text \<open>
  The claim as stated fails: a timestamp with neither a trailing \<^verbatim>\<open>Z\<close> nor a numeric
  offset parses too, to a naive datetime.
\<close>

theorem parse_timestamp_naive_counterexample:
  "\<not> endswith_Z ''2025-08-04T10:00:00''
   \<and> parse_timestamp fromisoformat (JStr ''2025-08-04T10:00:00'')
       = Some \<lparr>wall = 63889898400, utcoffset = None\<rparr>
   \<and> validate_event fromisoformat (event ''s'' ''2025-08-04T10:00:00'')"
  by code_simp

subsection \<open>C8: the rendering of the alert instant\<close>

text \<open>
  Claim C8 says that \<^verbatim>\<open>alert_at\<close> is the UTC reading of the alert instant. The code
  formats the wall clock of the datetime and appends a literal \<^verbatim>\<open>Z\<close>: for two valid
  events written with the offset \<^verbatim>\<open>+05:30\<close> the alert reads \<^verbatim>\<open>2025-08-04T10:03:00Z\<close>,
  while the UTC reading of that instant is \<^verbatim>\<open>2025-08-04T04:33:00Z\<close>.
\<close>

theorem alert_at_not_utc:
  "validate_event fromisoformat (event ''s'' ''2025-08-04T10:00:00+05:30'')
   \<and> validate_event fromisoformat (event ''s'' ''2025-08-04T10:04:00+05:30'')
   \<and> monitor fromisoformat setUp
     [event ''s'' ''2025-08-04T10:00:00+05:30'', event ''s'' ''2025-08-04T10:04:00+05:30'']
   = Inr [\<lparr>service = JStr ''s'', alert_at = ''2025-08-04T10:03:00Z''\<rparr>]
   \<and> timestamp_of fromisoformat (event ''s'' ''2025-08-04T10:00:00+05:30'')
       = Inr (Some \<lparr>wall = 63889898400, utcoffset = Some 19800\<rparr>)
   \<and> dt_add (Some \<lparr>wall = 63889898400, utcoffset = Some 19800\<rparr>) (60 + 60 * (3 - 1))
       = Inr \<lparr>wall = 63889898580, utcoffset = Some 19800\<rparr>
   \<and> strftime \<lparr>wall = 63889898580, utcoffset = Some 19800\<rparr> = ''2025-08-04T10:03:00Z''
   \<and> strftime (utc_reading \<lparr>wall = 63889898580, utcoffset = Some 19800\<rparr>)
       = ''2025-08-04T04:33:00Z''"
  by code_simp

subsection \<open>C9: construction\<close>

text \<open>
  Claim C9. Construction fails with the configuration error (\<^verbatim>\<open>ValueError\<close>) exactly
  when the interval or the miss threshold is not positive, and then no monitor is produced;
  with both positive it succeeds and stores the two values unchanged.
\<close>

theorem init_validation:
  "(init i m = Inl ValueError) = (i \<le> 0 \<or> m \<le> 0)
   \<and> ((\<exists>self. init i m = Inr self) = (0 < i \<and> 0 < m))
   \<and> (0 < i \<and> 0 < m \<longrightarrow>
        init i m = Inr \<lparr>expected_interval_seconds = i, allowed_misses = m\<rparr>)"
  by (auto simp: init_def)

text \<open>The theorem at the constructions of \<^verbatim>\<open>setUp\<close> and \<^verbatim>\<open>test_initialization_validation\<close>.\<close>

theorem init_validation_witness:
  "init 60 3 = Inr \<lparr>expected_interval_seconds = 60, allowed_misses = 3\<rparr>
   \<and> init 0 3 = Inl ValueError \<and> init 60 (- 1) = Inl ValueError"
  using init_validation [of 60 3] init_validation [of 0 3] init_validation [of 60 "- 1"]
  by simp

subsection \<open>C10: duplicate timestamps\<close>



end
